theory Spec2Isabelle
  imports Main "HOL-Library.Word"
begin

unbundle bit_operations_syntax

section \<open>QuMail: key manager, security service and encryption engine\<close>

text \<open>
  The development follows three source files of the repository:
  \<^item> the mock key manager server (the \<open>enc_keys\<close> and \<open>otp_keys\<close> handlers over the
    in-memory \<open>keyDatabase\<close>),
  \<^item> \<open>securityService\<close> (the one-time-pad tier: \<open>encryptWithOTP\<close>, \<open>decryptFromOTP\<close>,
    \<open>base64ToBytes\<close>, \<open>bytesToBase64\<close>) together with the \<open>kmService\<close> client it calls,
  \<^item> \<open>encryptionEngine\<close> (\<open>encryptAttachments\<close>, \<open>decryptSubject\<close>, \<open>decryptBody\<close>,
    \<open>decryptAttachments\<close>, \<open>decryptEmail\<close>, \<open>arrayBufferToBase64\<close>, \<open>base64ToArrayBuffer\<close>).

  A JavaScript exception is a value \<open>Inl e\<close> of a sum type, a \<open>Uint8Array\<close> is a list of
  8-bit words, a binary string (\<open>btoa\<close>/\<open>atob\<close>) is a \<open>string\<close>, an absent object field is
  \<open>None\<close>. Whatever the code obtains from the network, the clock or a random generator
  is an argument of the model.
\<close>

subsection \<open>JavaScript values\<close>

type_synonym byte = "8 word"

datatype js_error =
    Error string                \<comment> \<open>\<open>new Error(message)\<close>\<close>
  | TypeError string            \<comment> \<open>a property read on \<open>undefined\<close>\<close>
  | InvalidCharacterError       \<comment> \<open>the \<open>DOMException\<close> of \<open>atob\<close>\<close>

fun message :: "js_error \<Rightarrow> string" where
  "message (Error m) = m"
| "message (TypeError m) = m"
| "message InvalidCharacterError = ''The string to be decoded is not correctly encoded.''"

text \<open>\<open>!x\<close> on a field that holds a string or is absent: absent and \<open>""\<close> are falsy.\<close>

fun truthy :: "string option \<Rightarrow> bool" where
  "truthy None = False"
| "truthy (Some s) = (s \<noteq> [])"

text \<open>\<open>String(x)\<close>, as \<open>atob\<close> applies it to its argument.\<close>

fun to_string :: "string option \<Rightarrow> string" where
  "to_string None = ''undefined''"
| "to_string (Some s) = s"

definition fromCharCode :: "byte \<Rightarrow> char" where
  "fromCharCode b = char_of (unat b)"

definition charCodeAt :: "char \<Rightarrow> byte" where
  "charCodeAt c = word_of_nat (of_char c)"

subsection \<open>The platform's \<open>btoa\<close> and \<open>atob\<close>\<close>

text \<open>
  \<open>btoa\<close> and \<open>atob\<close> are functions of the JavaScript platform, not of the repository.
  They are modelled after the HTML standard: \<open>btoa\<close> is the base64 encoding of RFC 4648
  with padding; \<open>atob\<close> is the forgiving base64 decoding (ASCII whitespace is removed, one
  or two trailing \<open>=\<close> are removed when the length is a multiple of four, a length of
  \<open>1 mod 4\<close> and any character outside the alphabet are refused, left-over bits are
  dropped). A character of a \<open>string\<close> is a byte here, so \<open>btoa\<close> never meets a code
  unit above 255 and never throws.
\<close>

definition b64_char :: "nat \<Rightarrow> char" where
  "b64_char n =
     (if n < 26 then char_of (n + 65)
      else if n < 52 then char_of (n + 71)
      else if n < 62 then char_of (n - 4)
      else if n = 62 then CHR ''+''
      else CHR ''/'')"

definition b64_value :: "char \<Rightarrow> nat option" where
  "b64_value c =
     (let n = (of_char c :: nat) in
      if 65 \<le> n \<and> n \<le> 90 then Some (n - 65)
      else if 97 \<le> n \<and> n \<le> 122 then Some (n - 71)
      else if 48 \<le> n \<and> n \<le> 57 then Some (n + 4)
      else if n = 43 then Some 62
      else if n = 47 then Some 63
      else None)"

fun b64_encode :: "nat list \<Rightarrow> string" where
  "b64_encode (a # b # c # rest) =
     [b64_char (a div 4), b64_char ((a mod 4) * 16 + b div 16),
      b64_char ((b mod 16) * 4 + c div 64), b64_char (c mod 64)] @ b64_encode rest"
| "b64_encode [a, b] =
     [b64_char (a div 4), b64_char ((a mod 4) * 16 + b div 16),
      b64_char ((b mod 16) * 4), CHR ''='']"
| "b64_encode [a] =
     [b64_char (a div 4), b64_char ((a mod 4) * 16), CHR ''='', CHR ''='']"
| "b64_encode [] = []"

definition btoa :: "string \<Rightarrow> string" where
  "btoa s = b64_encode (map of_char s)"

definition ascii_whitespace :: "char \<Rightarrow> bool" where
  "ascii_whitespace c = ((of_char c :: nat) \<in> {9, 10, 12, 13, 32})"

definition strip_padding :: "string \<Rightarrow> string" where
  "strip_padding d =
     (if length d mod 4 = 0 \<and> d \<noteq> [] \<and> last d = CHR ''='' then
        (let d' = butlast d in
         if d' \<noteq> [] \<and> last d' = CHR ''='' then butlast d' else d')
      else d)"

fun b64_decode :: "nat list \<Rightarrow> nat list" where
  "b64_decode (a # b # c # d # rest) =
     [a * 4 + b div 16, (b mod 16) * 16 + c div 4, (c mod 4) * 64 + d] @ b64_decode rest"
| "b64_decode [a, b, c] = [a * 4 + b div 16, (b mod 16) * 16 + c div 4]"
| "b64_decode [a, b] = [a * 4 + b div 16]"
| "b64_decode [a] = []"
| "b64_decode [] = []"

definition atob :: "string \<Rightarrow> js_error + string" where
  "atob s =
     (let d = strip_padding (filter (\<lambda>c. \<not> ascii_whitespace c) s) in
      if length d mod 4 = 1 then Inl InvalidCharacterError
      else case those (map b64_value d) of
             None \<Rightarrow> Inl InvalidCharacterError
           | Some vs \<Rightarrow> Inr (map char_of (b64_decode vs)))"


subsection \<open>The mock key manager server: \<open>keyDatabase\<close> and the key request handlers\<close>

text \<open>
  \<open>keyDatabase\<close> is a JavaScript \<open>Map\<close> from key ids to key objects. It is an association
  list in insertion order; \<open>Map_set\<close> is \<open>Map.prototype.set\<close> (a key that is present keeps
  its position) and \<open>Map_values\<close> is \<open>Array.from(keyDatabase.values())\<close>. The handlers
  filter these values and then write \<open>used = true\<close> into the selected objects, which are the
  objects of the map: a reference to an object is its position in the list.
\<close>

record key_object =
  keyId :: string
  key :: string
  keySize :: nat
  saeId :: string
  targetSaeId :: string
  timestamp :: string
  used :: bool
  keyType :: string

type_synonym keyDatabase = "(string \<times> key_object) list"

definition Map_set :: "string \<Rightarrow> key_object \<Rightarrow> keyDatabase \<Rightarrow> keyDatabase" where
  "Map_set k v db =
     (if k \<in> set (map fst db) then map (\<lambda>(k', v'). if k' = k then (k', v) else (k', v')) db
      else db @ [(k, v)])"

definition Map_values :: "keyDatabase \<Rightarrow> key_object list" where
  "Map_values db = map snd db"

text \<open>
  \<open>initializeKeys\<close>: ten encryption keys of 256 bits and twenty OTP keys of 1024 bits. The
  random ids, the random key material and the clock are the functions \<open>generateKeyId\<close>,
  \<open>generateQuantumKey\<close> and \<open>now\<close> of the number of the draw.
\<close>

definition initializeKeys ::
  "(nat \<Rightarrow> string) \<Rightarrow> (nat \<Rightarrow> string) \<Rightarrow> (nat \<Rightarrow> string) \<Rightarrow> keyDatabase" where
  "initializeKeys generateKeyId generateQuantumKey now =
     (let db1 = fold (\<lambda>i db. Map_set (generateKeyId i)
                   \<lparr>keyId = generateKeyId i, key = generateQuantumKey i, keySize = 256,
                    saeId = ''demo-client-001'', targetSaeId = ''demo-server-001'',
                    timestamp = now i, used = False, keyType = ''encryption''\<rparr> db) [0..<10] [];
          db2 = fold (\<lambda>i db. Map_set (generateKeyId i)
                   \<lparr>keyId = generateKeyId i, key = generateQuantumKey i, keySize = 1024,
                    saeId = ''demo-client-001'', targetSaeId = ''demo-server-001'',
                    timestamp = now i, used = False, keyType = ''otp''\<rparr> db) [10..<30] db1
      in db2)"

text \<open>
  The query of a key request. \<open>number\<close> and \<open>size\<close> are the numbers the query strings
  stand for (JavaScript compares them numerically); an absent parameter takes the
  handler's default.
\<close>

record key_query =
  number :: "nat option"
  size' :: "nat option"
  key_stream_id :: "string option"

record delivered_key =
  key_ID :: string
  key :: string
  key_size :: nat
  timestamp :: string

datatype km_reply =
    Keys "delivered_key list" string string
      \<comment> \<open>status 200: \<open>keys\<close>, \<open>key_stream_ID\<close>, \<open>timestamp\<close>\<close>
  | INSUFFICIENT_KEYS string nat nat
      \<comment> \<open>status 409: \<open>message\<close>, \<open>available\<close>, \<open>requested\<close>\<close>
  | INTERNAL_ERROR string
      \<comment> \<open>status 500, the handler's \<open>catch\<close>: nothing in the \<open>try\<close> block throws\<close>

text \<open>
  One round of the delivery loop
  \<open>for (let i = 0; i < number; i++) { if (i < availableKeys.length) { ... } }\<close>:
  \<open>availableKeys\<close> holds references into the database.
\<close>

definition deliver ::
  "nat list \<Rightarrow> nat \<Rightarrow> delivered_key list \<times> keyDatabase \<Rightarrow> delivered_key list \<times> keyDatabase" where
  "deliver availableKeys i = (\<lambda>(keys, db).
     if i < length availableKeys then
       (let r = availableKeys ! i; selectedKey = snd (db ! r) in
        (keys @ [\<lparr>key_ID = keyId selectedKey, key = key_object.key selectedKey,
                   key_size = keySize selectedKey,
                   timestamp = key_object.timestamp selectedKey\<rparr>],
         db[r := (fst (db ! r), selectedKey\<lparr>used := True\<rparr>)]))
     else (keys, db))"

text \<open>\<open>GET /api/v1/keys/:slave_sae_id/enc_keys\<close>\<close>

definition enc_keys ::
  "keyDatabase \<Rightarrow> string \<Rightarrow> key_query \<Rightarrow> string \<Rightarrow> string \<Rightarrow> km_reply \<times> keyDatabase" where
  "enc_keys db slave_sae_id query generatedKeyId now =
     (let number = (case number query of None \<Rightarrow> 1 | Some n \<Rightarrow> n);
          size = (case size' query of None \<Rightarrow> 256 | Some s \<Rightarrow> s);
          availableKeys = filter (\<lambda>r. let k = Map_values db ! r in
                              \<not> used k \<and> keyType k = ''encryption'' \<and> keySize k \<ge> size)
                            [0..<length db]
      in if length availableKeys < number then
           (INSUFFICIENT_KEYS ''Not enough keys available'' (length availableKeys) number, db)
         else
           (let (keys, db') = fold (deliver availableKeys) [0..<number] ([], db)
            in (Keys keys (if truthy (key_stream_id query) then to_string (key_stream_id query)
                           else generatedKeyId) now, db')))"

text \<open>\<open>GET /api/v1/keys/:slave_sae_id/otp_keys\<close>\<close>

definition otp_keys ::
  "keyDatabase \<Rightarrow> string \<Rightarrow> key_query \<Rightarrow> string \<Rightarrow> string \<Rightarrow> km_reply \<times> keyDatabase" where
  "otp_keys db slave_sae_id query generatedKeyId now =
     (let number = (case number query of None \<Rightarrow> 1 | Some n \<Rightarrow> n);
          size = (case size' query of None \<Rightarrow> 1024 | Some s \<Rightarrow> s);
          availableKeys = filter (\<lambda>r. let k = Map_values db ! r in
                              \<not> used k \<and> keyType k = ''otp'' \<and> keySize k \<ge> size)
                            [0..<length db]
      in if length availableKeys < number then
           (INSUFFICIENT_KEYS ''Not enough OTP keys available'' (length availableKeys) number, db)
         else
           (let (keys, db') = fold (deliver availableKeys) [0..<number] ([], db)
            in (Keys keys (if truthy (key_stream_id query) then to_string (key_stream_id query)
                           else generatedKeyId) now, db')))"

text \<open>
  A sequence of key requests. Node runs each handler to its end before the next one
  starts, so the server's behaviour on any number of clients is a sequence of handler
  calls on the one database. Each request comes with the id and the time the server
  would draw for it.
\<close>

datatype km_request = EncKeys string key_query | OtpKeys string key_query

fun handle :: "keyDatabase \<Rightarrow> km_request \<Rightarrow> string \<Rightarrow> string \<Rightarrow> km_reply \<times> keyDatabase" where
  "handle db (EncKeys slave_sae_id query) generatedKeyId now =
     enc_keys db slave_sae_id query generatedKeyId now"
| "handle db (OtpKeys slave_sae_id query) generatedKeyId now =
     otp_keys db slave_sae_id query generatedKeyId now"

fun serve :: "keyDatabase \<Rightarrow> (km_request \<times> string \<times> string) list \<Rightarrow> km_reply list \<times> keyDatabase" where
  "serve db [] = ([], db)"
| "serve db ((request, generatedKeyId, now) # rest) =
     (let (reply, db') = handle db request generatedKeyId now;
          (replies, db'') = serve db' rest
      in (reply # replies, db''))"


subsection \<open>The key pool, as the claims speak of it\<close>

text \<open>
  The keys of the pool that match a request (unused, of the requested type, at least
  of the requested size), the number of keys a request asks for, the key ids a reply
  delivers, and the ids of the keys that are marked used.
\<close>

fun matches :: "km_request \<Rightarrow> key_object \<Rightarrow> bool" where
  "matches (EncKeys slave_sae_id query) k =
     (\<not> used k \<and> keyType k = ''encryption''
      \<and> keySize k \<ge> (case size' query of None \<Rightarrow> 256 | Some s \<Rightarrow> s))"
| "matches (OtpKeys slave_sae_id query) k =
     (\<not> used k \<and> keyType k = ''otp''
      \<and> keySize k \<ge> (case size' query of None \<Rightarrow> 1024 | Some s \<Rightarrow> s))"

definition candidates :: "keyDatabase \<Rightarrow> km_request \<Rightarrow> key_object list" where
  "candidates db request = filter (matches request) (Map_values db)"

fun requested :: "km_request \<Rightarrow> nat" where
  "requested (EncKeys slave_sae_id query) = (case number query of None \<Rightarrow> 1 | Some n \<Rightarrow> n)"
| "requested (OtpKeys slave_sae_id query) = (case number query of None \<Rightarrow> 1 | Some n \<Rightarrow> n)"

fun delivered_ids :: "km_reply \<Rightarrow> string set" where
  "delivered_ids (Keys keys' key_stream_ID now) = set (map key_ID keys')"
| "delivered_ids (INSUFFICIENT_KEYS msg available requested') = {}"
| "delivered_ids (INTERNAL_ERROR msg) = {}"

definition used_ids :: "keyDatabase \<Rightarrow> string set" where
  "used_ids db = {keyId k | k. k \<in> set (Map_values db) \<and> used k}"

text \<open>
  The invariant of \<open>keyDatabase\<close>: a \<open>Map\<close> holds each key once, and every key object is
  stored under its own \<open>keyId\<close>.
\<close>

definition keyDatabase_ok :: "keyDatabase \<Rightarrow> bool" where
  "keyDatabase_ok db = (distinct (map fst db) \<and> list_all (\<lambda>(k, v). keyId v = k) db)"

text \<open>
  The references to the matching objects (\<open>availableKeys\<close> in the handlers), and the
  database after the objects at the references \<open>S\<close> have been marked used.
\<close>

definition references :: "keyDatabase \<Rightarrow> km_request \<Rightarrow> nat list" where
  "references db request = filter (\<lambda>r. matches request (Map_values db ! r)) [0..<length db]"

definition mark :: "nat set \<Rightarrow> keyDatabase \<Rightarrow> keyDatabase" where
  "mark S db =
     map (\<lambda>r. if r \<in> S then (fst (db ! r), (snd (db ! r))\<lparr>used := True\<rparr>) else db ! r)
       [0..<length db]"

definition delivered :: "key_object \<Rightarrow> delivered_key" where
  "delivered k = \<lparr>key_ID = keyId k, key = key_object.key k, key_size = keySize k,
                  timestamp = key_object.timestamp k\<rparr>"

text \<open>The message of the 409 reply and the \<open>key_stream_ID\<close> of the 200 reply.\<close>

fun insufficient_message :: "km_request \<Rightarrow> string" where
  "insufficient_message (EncKeys s q) = ''Not enough keys available''"
| "insufficient_message (OtpKeys s q) = ''Not enough OTP keys available''"

fun stream_id :: "km_request \<Rightarrow> string \<Rightarrow> string" where
  "stream_id (EncKeys s q) g = (if truthy (key_stream_id q) then to_string (key_stream_id q) else g)"
| "stream_id (OtpKeys s q) g = (if truthy (key_stream_id q) then to_string (key_stream_id q) else g)"

text \<open>
  A small pool for running the handlers: one encryption key, and four OTP keys of which
  one is used already.
\<close>

definition db_example :: keyDatabase where
  "db_example =
     [(''enc-1'', \<lparr>keyId = ''enc-1'', key = ''AQIDBAUG'', keySize = 256,
                   saeId = ''demo-client-001'', targetSaeId = ''demo-server-001'',
                   timestamp = ''2025-01-01T00:00:00.000Z'', used = False,
                   keyType = ''encryption''\<rparr>),
      (''otp-1'', \<lparr>keyId = ''otp-1'', key = ''AQIDBAUG'', keySize = 1024,
                   saeId = ''demo-client-001'', targetSaeId = ''demo-server-001'',
                   timestamp = ''2025-01-01T00:00:00.000Z'', used = False,
                   keyType = ''otp''\<rparr>),
      (''otp-2'', \<lparr>keyId = ''otp-2'', key = ''AQIDBAUG'', keySize = 1024,
                   saeId = ''demo-client-001'', targetSaeId = ''demo-server-001'',
                   timestamp = ''2025-01-01T00:00:00.000Z'', used = True,
                   keyType = ''otp''\<rparr>),
      (''otp-3'', \<lparr>keyId = ''otp-3'', key = ''AQIDBAUG'', keySize = 1024,
                   saeId = ''demo-client-001'', targetSaeId = ''demo-server-001'',
                   timestamp = ''2025-01-01T00:00:00.000Z'', used = False,
                   keyType = ''otp''\<rparr>),
      (''otp-4'', \<lparr>keyId = ''otp-4'', key = ''AQIDBAUG'', keySize = 1024,
                   saeId = ''demo-client-001'', targetSaeId = ''demo-server-001'',
                   timestamp = ''2025-01-01T00:00:00.000Z'', used = False,
                   keyType = ''otp''\<rparr>)]"

text \<open>Three requests in a row: two OTP keys, one encryption key, one OTP key.\<close>

definition requests_example :: "(km_request \<times> string \<times> string) list" where
  "requests_example =
     [(OtpKeys ''demo-server-001'' \<lparr>number = Some 2, size' = None, key_stream_id = None\<rparr>,
       ''c0a8'', ''2025-01-02T00:00:00.000Z''),
      (EncKeys ''demo-server-001'' \<lparr>number = None, size' = None, key_stream_id = None\<rparr>,
       ''c0a9'', ''2025-01-02T00:00:01.000Z''),
      (OtpKeys ''demo-server-001'' \<lparr>number = None, size' = None, key_stream_id = None\<rparr>,
       ''c0aa'', ''2025-01-02T00:00:02.000Z'')]"

subsection \<open>The platform's text codec\<close>

text \<open>
  \<open>new TextEncoder().encode\<close> and \<open>new TextDecoder().decode\<close> are the platform's UTF-8
  codec. They are parameters of the model: the security service only hands a string to
  the one and a byte array to the other.
\<close>

record platform =
  TextEncoder_encode :: "string \<Rightarrow> byte list"
  TextDecoder_decode :: "byte list \<Rightarrow> string"

text \<open>
  On ASCII text UTF-8 is one byte per character; \<open>ascii_platform\<close> is the codec on such
  text, for running the model on concrete inputs.
\<close>

definition ascii_platform :: platform where
  "ascii_platform = \<lparr>TextEncoder_encode = map charCodeAt, TextDecoder_decode = map fromCharCode\<rparr>"

subsection \<open>\<open>kmService\<close>: the key manager client\<close>

text \<open>
  \<open>requestEncryptionKey\<close> and \<open>getKey\<close> ask the key manager over the network (the mock
  client draws random material instead). Both catch every error and return a response
  object, so each is the function from its arguments to the response the client gets.
\<close>

record km_key =
  key_ID :: "string option"
  key :: "string option"
  key_size :: "nat option"

record km_response =
  status :: string
  keys :: "km_key list"
  error_message :: "string option"

record kmService =
  saeId :: "string option"
  requestEncryptionKey :: "string option \<Rightarrow> nat \<Rightarrow> km_response"
  getKey :: "string \<Rightarrow> km_response"

definition generateOTPKeys :: "kmService \<Rightarrow> nat \<Rightarrow> js_error + km_key" where
  "generateOTPKeys km dataSize =
     (let keySize = ((dataSize + 7) div 8) * 8; \<comment> \<open>\<open>Math.ceil(dataSize / 8) * 8\<close>\<close>
          response = requestEncryptionKey km (kmService.saeId km) keySize
      in if status response = ''success'' \<and> length (keys response) > 0 then
           Inr (keys response ! 0)
         else if truthy (error_message response) then
           Inl (Error (to_string (error_message response)))
         else Inl (Error ''Failed to generate OTP keys''))"

subsection \<open>\<open>securityService\<close>: the one-time-pad tier\<close>

definition QUANTUM_SECURE :: string where "QUANTUM_SECURE = ''quantum_secure''"
definition QUANTUM_AES :: string where "QUANTUM_AES = ''quantum_aes''"
definition PQC_ENCRYPTION :: string where "PQC_ENCRYPTION = ''pqc_encryption''"
definition NO_QUANTUM :: string where "NO_QUANTUM = ''no_quantum''"

text \<open>The content of an attachment or of an encrypted field: \<open>ArrayBuffer | string\<close>.\<close>

datatype js_data = Str string | ArrayBuffer "byte list"

fun String :: "js_data \<Rightarrow> string" where
  "String (Str s) = s"
| "String (ArrayBuffer b) = ''[object ArrayBuffer]''"

text \<open>
  The object an encryption returns and a decryption takes. The engine builds the
  argument of a decryption from four fields only; the others are absent then.
\<close>

record otp_metadata =
  originalSize :: nat
  keySource :: string
  entropy :: string

record encrypted_data =
  encryptedData :: js_data
  securityLevel :: "string option"
  algorithm :: "string option"
  quantumKeyId :: "string option"
  timestamp :: "string option"
  keySize :: "nat option"
  metadata :: "otp_metadata option"

record decrypted_data =
  data :: string
  verified :: bool
  algorithm :: string
  securityLevel :: string

definition base64ToBytes :: "string \<Rightarrow> js_error + byte list" where
  "base64ToBytes base64String =
     (case atob base64String of
        Inl e \<Rightarrow> Inl e
      | Inr binaryString \<Rightarrow> Inr (map charCodeAt binaryString))"

definition bytesToBase64 :: "byte list \<Rightarrow> string" where
  "bytesToBase64 bytes = btoa (map fromCharCode bytes)"

text \<open>
  \<open>bytes[i]\<close> on a \<open>Uint8Array\<close> is \<open>undefined\<close> out of range, and \<open>a ^ undefined\<close> is
  \<open>a ^ 0\<close>.
\<close>

definition byte_at :: "byte list \<Rightarrow> nat \<Rightarrow> byte option" where
  "byte_at bytes i = (if i < length bytes then Some (bytes ! i) else None)"

definition ToInt32 :: "byte option \<Rightarrow> byte" where
  "ToInt32 v = (case v of None \<Rightarrow> 0 | Some x \<Rightarrow> x)"

definition js_xor :: "byte option \<Rightarrow> byte option \<Rightarrow> byte" where
  "js_xor a b = ToInt32 a XOR ToInt32 b"

text \<open>
  The loop of both OTP functions,
  \<open>for (let i = 0; i < n; i++) { out[i] = bytes[i] ^ keyBytes[i]; }\<close>
  into a fresh \<open>Uint8Array(n)\<close>.
\<close>

definition xor_loop :: "nat \<Rightarrow> byte list \<Rightarrow> byte list \<Rightarrow> byte list" where
  "xor_loop n bytes keyBytes = map (\<lambda>i. js_xor (byte_at bytes i) (byte_at keyBytes i)) [0..<n]"

text \<open>
  \<open>encryptWithOTP(data)\<close>; \<open>now\<close> is \<open>new Date().toISOString()\<close>.
\<close>

definition encryptWithOTP :: "platform \<Rightarrow> kmService \<Rightarrow> string \<Rightarrow> string \<Rightarrow> js_error + encrypted_data" where
  "encryptWithOTP pf km now data' =
     (let dataBytes = TextEncoder_encode pf data';
          dataSize = length dataBytes
      in case generateOTPKeys km (dataSize * 8) of
           Inl e \<Rightarrow> Inl e
         | Inr quantumKey \<Rightarrow>
             if \<not> truthy (km_key.key quantumKey) then
               Inl (Error ''Failed to obtain quantum key for OTP encryption'')
             else
               (case base64ToBytes (to_string (km_key.key quantumKey)) of
                  Inl e \<Rightarrow> Inl e
                | Inr keyBytes \<Rightarrow>
                    if length keyBytes < dataSize then
                      Inl (Error ''Quantum key too short for OTP encryption'')
                    else
                      (let encryptedBytes = xor_loop dataSize dataBytes keyBytes
                       in Inr \<lparr>encryptedData = Str (bytesToBase64 encryptedBytes),
                               securityLevel = Some QUANTUM_SECURE,
                               algorithm = Some ''OTP'',
                               quantumKeyId = km_key.key_ID quantumKey,
                               timestamp = Some now,
                               keySize = km_key.key_size quantumKey,
                               metadata = Some \<lparr>originalSize = dataSize, keySource = ''QKD'',
                                                entropy = ''quantum''\<rparr>\<rparr>)))"

text \<open>\<open>decryptFromOTP(encryptedData)\<close>\<close>

definition decryptFromOTP :: "platform \<Rightarrow> kmService \<Rightarrow> encrypted_data \<Rightarrow> js_error + decrypted_data" where
  "decryptFromOTP pf km encryptedData' =
     (if \<not> truthy (quantumKeyId encryptedData') then
        Inl (Error ''Missing quantum key ID for OTP decryption'')
      else
        (let keyResponse = getKey km (to_string (quantumKeyId encryptedData'))
         in if status keyResponse \<noteq> ''success'' \<or> length (keys keyResponse) = 0 then
              Inl (Error ''Failed to retrieve quantum key for OTP decryption'')
            else
              (let quantumKey = keys keyResponse ! 0
               in case base64ToBytes (to_string (km_key.key quantumKey)) of
                    Inl e \<Rightarrow> Inl e
                  | Inr keyBytes \<Rightarrow>
                      (case base64ToBytes (String (encryptedData encryptedData')) of
                         Inl e \<Rightarrow> Inl e
                       | Inr encryptedBytes \<Rightarrow>
                           (let decryptedBytes =
                                  xor_loop (length encryptedBytes) encryptedBytes keyBytes
                            in Inr \<lparr>data = TextDecoder_decode pf decryptedBytes,
                                    verified = True,
                                    algorithm = ''OTP'',
                                    securityLevel = QUANTUM_SECURE\<rparr>)))))"

text \<open>
  The other three tiers run in the CryptoJS library, which is not part of the
  repository: they are parameters of the dispatch.
\<close>

record crypto_tiers =
  encryptWithQuantumAES :: "string \<Rightarrow> js_error + encrypted_data"
  encryptWithPQC :: "string \<Rightarrow> js_error + encrypted_data"
  encryptWithStandard :: "string \<Rightarrow> js_error + encrypted_data"
  decryptFromQuantumAES :: "encrypted_data \<Rightarrow> js_error + decrypted_data"
  decryptFromPQC :: "encrypted_data \<Rightarrow> js_error + decrypted_data"
  decryptFromStandard :: "encrypted_data \<Rightarrow> js_error + decrypted_data"

text \<open>
  \<open>encryptData(data, options)\<close> with \<open>options = {securityLevel}\<close>, and
  \<open>decryptData(encryptedData)\<close> with no options, as the engine calls them.
\<close>

definition encryptData ::
  "platform \<Rightarrow> kmService \<Rightarrow> crypto_tiers \<Rightarrow> string \<Rightarrow> string \<Rightarrow> string option \<Rightarrow> string
     \<Rightarrow> js_error + encrypted_data" where
  "encryptData pf km tiers currentSecurityLevel now options_securityLevel data' =
     (let securityLevel = (if truthy options_securityLevel then to_string options_securityLevel
                           else currentSecurityLevel)
      in if securityLevel = QUANTUM_SECURE then encryptWithOTP pf km now data'
         else if securityLevel = QUANTUM_AES then encryptWithQuantumAES tiers data'
         else if securityLevel = PQC_ENCRYPTION then encryptWithPQC tiers data'
         else if securityLevel = NO_QUANTUM then encryptWithStandard tiers data'
         else Inl (Error (''Unsupported security level: '' @ securityLevel)))"

definition decryptData ::
  "platform \<Rightarrow> kmService \<Rightarrow> crypto_tiers \<Rightarrow> encrypted_data \<Rightarrow> js_error + decrypted_data" where
  "decryptData pf km tiers encryptedData' =
     (let securityLevel = (if truthy (encrypted_data.securityLevel encryptedData')
                           then encrypted_data.securityLevel encryptedData' else None)
      in if securityLevel = Some QUANTUM_SECURE then decryptFromOTP pf km encryptedData'
         else if securityLevel = Some QUANTUM_AES then decryptFromQuantumAES tiers encryptedData'
         else if securityLevel = Some PQC_ENCRYPTION then decryptFromPQC tiers encryptedData'
         else if securityLevel = Some NO_QUANTUM then decryptFromStandard tiers encryptedData'
         else Inl (Error (''Unsupported security level: '' @ to_string securityLevel)))"


subsection \<open>\<open>encryptionEngine\<close>\<close>

text \<open>
  The engine calls \<open>securityService\<close> and \<open>kmService\<close>, whose answers depend on the key
  manager, the clock and the random generator. For the engine they are functions on a
  state \<open>'w\<close> of all that, returning the answer and the next state. The two
  \<open>initialize\<close> methods set a flag and write to the console; they throw nothing.
\<close>

record 'w services =
  securityService_initialize :: "'w \<Rightarrow> 'w"
  kmService_initialize :: "'w \<Rightarrow> 'w"
  securityService_getCurrentSecurityLevel :: "'w \<Rightarrow> string"
  securityService_encryptData :: "'w \<Rightarrow> string \<Rightarrow> string \<Rightarrow> (js_error + encrypted_data) \<times> 'w"
  securityService_decryptData :: "'w \<Rightarrow> encrypted_data \<Rightarrow> (js_error + decrypted_data) \<times> 'w"

text \<open>The security service above, on one state of the key manager and the clock.\<close>

definition services_of ::
  "platform \<Rightarrow> kmService \<Rightarrow> crypto_tiers \<Rightarrow> string \<Rightarrow> string \<Rightarrow> 'w services" where
  "services_of pf km tiers currentSecurityLevel now =
     \<lparr>securityService_initialize = (\<lambda>w. w),
      kmService_initialize = (\<lambda>w. w),
      securityService_getCurrentSecurityLevel = (\<lambda>w. currentSecurityLevel),
      securityService_encryptData = (\<lambda>w data' securityLevel.
         (encryptData pf km tiers currentSecurityLevel now (Some securityLevel) data', w)),
      securityService_decryptData = (\<lambda>w encryptedData'.
         (decryptData pf km tiers encryptedData', w))\<rparr>"

record 'w engine =
  isInitialized :: bool
  world :: 'w

definition initialize :: "'w services \<Rightarrow> 'w engine \<Rightarrow> 'w engine" where
  "initialize sv st =
     \<lparr>isInitialized = True,
      world = kmService_initialize sv (securityService_initialize sv (world st))\<rparr>"

text \<open>
  The metadata of an encrypted subject, body or attachment: one record for the three
  shapes, a field that a shape does not have being absent.
\<close>

record component_metadata =
  algorithm :: "string option"
  securityLevel :: "string option"
  quantumKeyId :: "string option"
  timestamp :: "string option"
  isHtml :: "bool option"
  originalSize :: "nat option"
  originalContentType :: "string option"

record attachment =
  filename :: string
  contentType :: "string option"
  size' :: "nat option"
  data :: js_data
  encrypted :: "bool option"
  metadata :: "component_metadata option"
  encryptionError :: "string option"
  decryptionError :: "string option"

record encryption_components =
  subject :: component_metadata
  body :: component_metadata
  attachments :: "component_metadata option list"

record encryption_metadata =
  encryptionId :: string
  securityLevel :: string
  timestamp :: string
  version :: string
  components :: encryption_components

record email =
  subject :: string
  body :: string
  attachments :: "attachment list option"
  encrypted :: "bool option"
  encryptionMetadata :: "encryption_metadata option"
  originalEncryptionMetadata :: "encryption_metadata option"
  headers :: "string \<rightharpoonup> string"

record encrypt_result =
  success :: bool
  encryptedEmail :: "email option"
  encryptionId :: "string option"
  securityLevel :: "string option"
  error :: "string option"

record decrypt_result =
  success :: bool
  decryptedEmail :: "email option"
  wasEncrypted :: "bool option"
  securityLevel :: "string option"
  error :: "string option"

subsubsection \<open>Strings\<close>

definition startsWith :: "string \<Rightarrow> string \<Rightarrow> bool" where
  "startsWith s p = (take (length p) s = p)"

fun includes' :: "string \<Rightarrow> string \<Rightarrow> bool" where
  "includes' [] p = (p = [])"
| "includes' (c # cs) p = (startsWith (c # cs) p \<or> includes' cs p)"

text \<open>\<open>s.replace(p, r)\<close> with a string pattern: the first occurrence only.\<close>

fun replace :: "string \<Rightarrow> string \<Rightarrow> string \<Rightarrow> string" where
  "replace [] p r = (if p = [] then r else [])"
| "replace (c # cs) p r =
     (if startsWith (c # cs) p then r @ drop (length p) (c # cs) else c # replace cs p r)"

text \<open>The white space of \<open>\<^verbatim>\<open>\s\<close>\<close> and of \<open>trim\<close>, among the characters a \<open>string\<close> holds.\<close>

definition white_space :: "char \<Rightarrow> bool" where
  "white_space c = ((of_char c :: nat) \<in> {9, 10, 11, 12, 13, 32, 160})"

definition trim :: "string \<Rightarrow> string" where
  "trim s = rev (dropWhile white_space (rev (dropWhile white_space s)))"

text \<open>
  \<open>encryptedBody.match(/QuMail-Encrypted-Body:\s*([^<]+)/)\<close>, the first group. At a
  position where the literal stands, \<open>\<^verbatim>\<open>\s*\<close>\<close> takes the white space that follows and the
  group takes the characters up to the next \<open><\<close>; when none is left for the group,
  \<open>\<^verbatim>\<open>\s*\<close>\<close> gives its last character back. Where that fails too, the search goes on to
  the right.
\<close>

definition body_group :: "string \<Rightarrow> string option" where
  "body_group rest =
     (let ws = takeWhile white_space rest; r = dropWhile white_space rest
      in if takeWhile (\<lambda>c. c \<noteq> CHR ''<'') r \<noteq> [] then Some (takeWhile (\<lambda>c. c \<noteq> CHR ''<'') r)
         else if ws \<noteq> [] then Some [last ws]
         else None)"

fun body_match :: "string \<Rightarrow> string option" where
  "body_match [] = None"
| "body_match (c # cs) =
     (if startsWith (c # cs) ''QuMail-Encrypted-Body:'' then
        (case body_group (drop (length ''QuMail-Encrypted-Body:'') (c # cs)) of
           Some g \<Rightarrow> Some g
         | None \<Rightarrow> body_match cs)
      else body_match cs)"

subsubsection \<open>Utility methods\<close>

definition arrayBufferToBase64 :: "byte list \<Rightarrow> string" where
  "arrayBufferToBase64 buffer = btoa (map fromCharCode buffer)"

definition base64ToArrayBuffer :: "string \<Rightarrow> js_error + byte list" where
  "base64ToArrayBuffer base64 =
     (case atob base64 of
        Inl e \<Rightarrow> Inl e
      | Inr binary \<Rightarrow> Inr (map charCodeAt binary))"


subsubsection \<open>Encryption\<close>

record encrypted_component =
  encryptedData :: js_data
  metadata :: component_metadata











subsubsection \<open>Decryption\<close>

text \<open>
  The argument of \<open>securityService.decryptData\<close>, the same object literal in
  \<open>decryptSubject\<close>, \<open>decryptBody\<close> and \<open>decryptAttachments\<close>:
  \<open>{encryptedData, securityLevel: metadata.securityLevel, quantumKeyId:
  metadata.quantumKeyId, algorithm: metadata.algorithm}\<close>.
\<close>

definition decryptData_argument :: "js_data \<Rightarrow> component_metadata \<Rightarrow> encrypted_data" where
  "decryptData_argument encryptedData' metadata' =
     \<lparr>encrypted_data.encryptedData = encryptedData',
      securityLevel = component_metadata.securityLevel metadata',
      algorithm = component_metadata.algorithm metadata',
      quantumKeyId = component_metadata.quantumKeyId metadata',
      timestamp = None, keySize = None, metadata = None\<rparr>"

text \<open>
  \<open>decryptSubject\<close> and \<open>decryptBody\<close> catch every error of their \<open>try\<close> block and return
  a placeholder text instead.
\<close>

definition decryptSubject ::
  "'w services \<Rightarrow> 'w \<Rightarrow> string \<Rightarrow> component_metadata \<Rightarrow> string \<times> 'w" where
  "decryptSubject sv w encryptedSubject metadata' =
     (if \<not> startsWith encryptedSubject ''[QuMail-Encrypted]'' then (encryptedSubject, w)
      else
        (let encryptedData' = replace encryptedSubject ''[QuMail-Encrypted] '' []
         in case securityService_decryptData sv w
                   (decryptData_argument (Str encryptedData') metadata') of
              (Inr decrypted, w') \<Rightarrow> (decrypted_data.data decrypted, w')
            | (Inl e, w') \<Rightarrow> (''[Decryption Failed]'', w')))"

definition decryptBody ::
  "'w services \<Rightarrow> 'w \<Rightarrow> string \<Rightarrow> component_metadata \<Rightarrow> string \<times> 'w" where
  "decryptBody sv w encryptedBody metadata' =
     (if \<not> includes' encryptedBody ''QuMail-Encrypted-Body'' then (encryptedBody, w)
      else
        (case body_match encryptedBody of
           None \<Rightarrow> \<comment> \<open>the \<open>throw\<close> of an invalid encrypted body format, caught below\<close>
             (''<p><strong>Decryption Failed:</strong> Unable to decrypt email body.</p>'', w)
         | Some group1 \<Rightarrow>
             (let encryptedData' = trim group1
              in case securityService_decryptData sv w
                        (decryptData_argument (Str encryptedData') metadata') of
                   (Inr decrypted, w') \<Rightarrow> (decrypted_data.data decrypted, w')
                 | (Inl e, w') \<Rightarrow>
                     (''<p><strong>Decryption Failed:</strong> Unable to decrypt email body.</p>'',
                      w'))))"

text \<open>
  The body of the loop of \<open>decryptAttachments\<close>. \<open>metadata'\<close> is \<open>metadataArray[i]\<close>,
  \<open>undefined\<close> beyond the end of the array; reading \<open>metadata.securityLevel\<close> then throws a
  \<open>TypeError\<close> inside the \<open>try\<close> block. The \<open>catch\<close> pushes the attachment as it came with
  \<open>decryptionError\<close>. \<open>x || y\<close> on numbers takes \<open>y\<close> for \<open>0\<close>.
\<close>

definition decryptAttachment ::
  "'w services \<Rightarrow> attachment \<Rightarrow> component_metadata option \<Rightarrow> 'w \<Rightarrow> attachment \<times> 'w" where
  "decryptAttachment sv attachment' metadata' w =
     (if attachment.encrypted attachment' \<noteq> Some True then (attachment', w)
      else
        (case metadata' of
           None \<Rightarrow>
             (attachment'\<lparr>decryptionError := Some (message (TypeError
                ''Cannot read properties of undefined (reading 'securityLevel')''))\<rparr>, w)
         | Some md \<Rightarrow>
             (case securityService_decryptData sv w
                     (decryptData_argument (data attachment') md) of
                (Inl e, w') \<Rightarrow> (attachment'\<lparr>decryptionError := Some (message e)\<rparr>, w')
              | (Inr decrypted, w') \<Rightarrow>
                  (let contentType' = (if truthy (originalContentType md)
                                       then originalContentType md else contentType attachment');
                       size'' = (case originalSize md of
                                   None \<Rightarrow> size' attachment'
                                 | Some n \<Rightarrow> if n \<noteq> 0 then Some n else size' attachment')
                   in if truthy (originalContentType md)
                         \<and> \<not> startsWith (to_string (originalContentType md)) ''text/''
                      then
                        (case base64ToArrayBuffer (decrypted_data.data decrypted) of
                           Inl e \<Rightarrow> (attachment'\<lparr>decryptionError := Some (message e)\<rparr>, w')
                         | Inr buffer \<Rightarrow>
                             (attachment'\<lparr>data := ArrayBuffer buffer,
                                          attachment.encrypted := Some False,
                                          contentType := contentType',
                                          size' := size''\<rparr>, w'))
                      else
                        (attachment'\<lparr>data := Str (decrypted_data.data decrypted),
                                     attachment.encrypted := Some False,
                                     contentType := contentType',
                                     size' := size''\<rparr>, w')))))"

text \<open>
  \<open>for (let i = 0; i < encryptedAttachments.length; i++)\<close>, with
  \<open>decryptedAttachments.push\<close> in every branch of the body.
\<close>

definition decryptAttachments ::
  "'w services \<Rightarrow> 'w \<Rightarrow> attachment list \<Rightarrow> component_metadata option list
     \<Rightarrow> attachment list \<times> 'w" where
  "decryptAttachments sv w encryptedAttachments metadataArray =
     fold (\<lambda>i (decryptedAttachments, w).
             let attachment' = encryptedAttachments ! i;
                 metadata' = (if i < length metadataArray then metadataArray ! i else None);
                 (a, w') = decryptAttachment sv attachment' metadata' w
             in (decryptedAttachments @ [a], w'))
          [0..<length encryptedAttachments] ([], w)"

text \<open>
  \<open>decryptEmail(encryptedEmail)\<close>. \<open>!encryptedEmail.encrypted\<close> holds for an absent field
  and for \<open>false\<close>. The only \<open>throw\<close> of the \<open>try\<close> block is the one for missing
  metadata.
\<close>

definition decryptEmail ::
  "'w services \<Rightarrow> 'w engine \<Rightarrow> email \<Rightarrow> decrypt_result \<times> 'w engine" where
  "decryptEmail sv st encryptedEmail' =
     (let st0 = (if \<not> isInitialized st then initialize sv st else st)
      in if encrypted encryptedEmail' \<noteq> Some True then
           (\<lparr>success = True, decryptedEmail = Some encryptedEmail',
             wasEncrypted = Some False, securityLevel = None, error = None\<rparr>, st0)
         else
           (case encryptionMetadata encryptedEmail' of
              None \<Rightarrow>
                (\<lparr>success = False, decryptedEmail = None, wasEncrypted = None,
                  securityLevel = None,
                  error = Some (message (Error ''Missing encryption metadata''))\<rparr>, st0)
            | Some encryptionMetadata' \<Rightarrow>
                (let (decryptedSubject, w1) =
                       decryptSubject sv (world st0) (subject encryptedEmail')
                         (encryption_components.subject (components encryptionMetadata'));
                     (decryptedBody, w2) =
                       decryptBody sv w1 (body encryptedEmail')
                         (encryption_components.body (components encryptionMetadata'));
                     (decryptedAttachments, w3) =
                       (case attachments encryptedEmail' of
                          None \<Rightarrow> ([], w2)
                        | Some attachments' \<Rightarrow>
                            if length attachments' > 0
                            then decryptAttachments sv w2 attachments'
                                   (encryption_components.attachments
                                      (components encryptionMetadata'))
                            else ([], w2))
                 in (\<lparr>success = True,
                      decryptedEmail = Some (encryptedEmail'
                        \<lparr>subject := decryptedSubject,
                         body := decryptedBody,
                         attachments := Some decryptedAttachments,
                         encrypted := Some False,
                         originalEncryptionMetadata := Some encryptionMetadata'\<rparr>),
                      wasEncrypted = Some True,
                      securityLevel = Some (encryption_metadata.securityLevel encryptionMetadata'),
                      error = None\<rparr>, st0\<lparr>world := w3\<rparr>))))"

subsection \<open>Auxiliary functions of the proofs\<close>

text \<open>
  The base64 encoding in two parts: the six-bit values of the alphabet characters, and
  the padding.
\<close>

fun b64_sextets :: "nat list \<Rightarrow> nat list" where
  "b64_sextets (a # b # c # rest) =
     [a div 4, (a mod 4) * 16 + b div 16, (b mod 16) * 4 + c div 64, c mod 64]
     @ b64_sextets rest"
| "b64_sextets [a, b] = [a div 4, (a mod 4) * 16 + b div 16, (b mod 16) * 4]"
| "b64_sextets [a] = [a div 4, (a mod 4) * 16]"
| "b64_sextets [] = []"

fun b64_padding :: "nat list \<Rightarrow> string" where
  "b64_padding (a # b # c # rest) = b64_padding rest"
| "b64_padding [a, b] = ''=''"
| "b64_padding [a] = ''==''"
| "b64_padding [] = []"

subsection \<open>A key manager with fixed answers\<close>

text \<open>
  \<open>km_example\<close> answers every request with the same six bytes of key material,
  \<open>01 02 03 04 05 06\<close> (\<open>AQIDBAUG\<close> in base64), and echoes the id it is asked for. The
  theorems below are run on it.
\<close>

definition km_example :: kmService where
  "km_example =
     \<lparr>saeId = Some ''mock_sae_001'',
      requestEncryptionKey = (\<lambda>slaveId keySize'.
         \<lparr>status = ''success'',
          keys = [\<lparr>key_ID = Some ''QK_1'', key = Some ''AQIDBAUG'', key_size = Some keySize'\<rparr>],
          error_message = None\<rparr>),
      getKey = (\<lambda>keyId'.
         \<lparr>status = ''success'',
          keys = [\<lparr>key_ID = Some keyId', key = Some ''AQIDBAUG'', key_size = Some 256\<rparr>],
          error_message = None\<rparr>)\<rparr>"


subsection \<open>An engine on the key manager with fixed answers\<close>

text \<open>
  \<open>sv_example\<close> is the security service on \<open>km_example\<close> with the one-time pad as the
  current tier and a clock that stands still; the three CryptoJS tiers are not
  available in it. \<open>email_example\<close> has three attachments: a short text, a text longer
  than the six bytes of key material, and three bytes of binary content.
\<close>

definition tiers_example :: crypto_tiers where
  "tiers_example =
     \<lparr>encryptWithQuantumAES = (\<lambda>data'. Inl (Error ''CryptoJS is not available'')),
      encryptWithPQC = (\<lambda>data'. Inl (Error ''CryptoJS is not available'')),
      encryptWithStandard = (\<lambda>data'. Inl (Error ''CryptoJS is not available'')),
      decryptFromQuantumAES = (\<lambda>encryptedData'. Inl (Error ''CryptoJS is not available'')),
      decryptFromPQC = (\<lambda>encryptedData'. Inl (Error ''CryptoJS is not available'')),
      decryptFromStandard = (\<lambda>encryptedData'. Inl (Error ''CryptoJS is not available''))\<rparr>"

definition sv_example :: "unit services" where
  "sv_example =
     services_of ascii_platform km_example tiers_example QUANTUM_SECURE
       ''2025-01-01T00:00:00.000Z''"

definition attachments_example :: "attachment list" where
  "attachments_example =
     [\<lparr>filename = ''a.txt'', contentType = Some ''text/plain'', size' = Some 3,
       data = Str ''abc'', encrypted = None, metadata = None,
       encryptionError = None, decryptionError = None\<rparr>,
      \<lparr>filename = ''b.txt'', contentType = Some ''text/plain'', size' = Some 16,
       data = Str ''much too long...'', encrypted = None, metadata = None,
       encryptionError = None, decryptionError = None\<rparr>,
      \<lparr>filename = ''c.bin'', contentType = Some ''application/pdf'', size' = Some 3,
       data = ArrayBuffer [1, 2, 3], encrypted = None, metadata = None,
       encryptionError = None, decryptionError = None\<rparr>]"

definition email_example :: email where
  "email_example =
     \<lparr>subject = ''Hi'', body = ''Hello'', attachments = Some attachments_example,
      encrypted = None, encryptionMetadata = None, originalEncryptionMetadata = None,
      headers = Map.empty\<rparr>"

definition engine_example :: "unit engine" where
  "engine_example = \<lparr>isInitialized = False, world = ()\<rparr>"

text \<open>
  An encrypted message for \<open>sv_example\<close>: the subject \<open>Hi\<close> as \<open>formatEncryptedSubject\<close>
  writes it, the body \<open>Hello\<close> in a short frame with the marker that \<open>decryptBody\<close>
  looks for, the binary attachment of \<open>email_example\<close> encrypted, and a second
  attachment whose content is not base64. In \<open>oversized_example\<close> the metadata of the
  binary attachment records 999 bytes for its three bytes of content.
\<close>

definition metadata_example :: component_metadata where
  "metadata_example =
     \<lparr>algorithm = Some ''OTP'', securityLevel = Some ''quantum_secure'',
      quantumKeyId = Some ''QK_1'', timestamp = Some ''2025-01-01T00:00:00.000Z'',
      isHtml = None, originalSize = None, originalContentType = None\<rparr>"




definition oversized_example :: attachment where
  "oversized_example =
     \<lparr>filename = ''c.bin'', contentType = Some ''application/pdf'', size' = Some 999,
      data = Str ''QFNKQA=='', encrypted = Some True,
      metadata = Some (metadata_example\<lparr>originalSize := Some 999,
                         originalContentType := Some ''application/pdf''\<rparr>),
      encryptionError = None, decryptionError = None\<rparr>"

section \<open>Properties\<close>

subsection \<open>\<open>atob\<close> undoes \<open>btoa\<close>\<close>

lemma b64_value_char: "n < 64 \<Longrightarrow> b64_value (b64_char n) = Some n"
  by (auto simp add: b64_char_def b64_value_def Let_def)

lemma of_char_b64_char:
  "n < 64 \<Longrightarrow> (of_char (b64_char n) :: nat) \<in> {65..90} \<union> {97..122} \<union> {48..57} \<union> {43, 47}"
  by (auto simp add: b64_char_def)

lemma b64_char_plain: "n < 64 \<Longrightarrow> \<not> ascii_whitespace (b64_char n)"
  using of_char_b64_char[of n] by (auto simp add: ascii_whitespace_def)

lemma b64_char_not_pad: "n < 64 \<Longrightarrow>  b64_char n \<noteq> CHR ''=''"
  using of_char_b64_char[of n] by auto

lemma b64_encode_split: "b64_encode bs = map b64_char (b64_sextets bs) @ b64_padding bs"
  by (induction bs rule: b64_encode.induct) simp_all

lemma b64_sextets_bound: "\<forall>b \<in> set bs. b < 256 \<Longrightarrow> \<forall>v \<in> set (b64_sextets bs). v < 64"
  by (induction bs rule: b64_sextets.induct) (auto simp: less_mult_imp_div_less)

lemma b64_sextets_length: "length (b64_sextets bs) mod 4 \<noteq> 1"
  by (induction bs rule: b64_sextets.induct) simp_all

lemma b64_encode_length: "(length (b64_sextets bs) + length (b64_padding bs)) mod 4 = 0"
  by (induction bs rule: b64_sextets.induct) simp_all

lemma join_div: "y < m \<Longrightarrow> (x * m + y) div m = (x::nat)"
  by simp

lemma join_mod: "y < m \<Longrightarrow> (x * m + y) mod m = (y::nat)"
  by simp

lemma b64_join1:
  fixes a b :: nat assumes "b < 256"
  shows "(a div 4) * 4 + ((a mod 4) * 16 + b div 16) div 16 = a"
proof -
  have "b div 16 < 16" using assms by (simp add: less_mult_imp_div_less)
  then show ?thesis by (simp add: join_div)
qed

lemma b64_join2:
  fixes a b c :: nat assumes "b < 256" "c < 256"
  shows "(((a mod 4) * 16 + b div 16) mod 16) * 16 + ((b mod 16) * 4 + c div 64) div 4 = b"
proof -
  have "b div 16 < 16" "c div 64 < 4" using assms by (simp_all add: less_mult_imp_div_less)
  then show ?thesis by (simp add: join_div join_mod)
qed

lemma b64_join3:
  fixes b c :: nat assumes "c < 256"
  shows "(((b mod 16) * 4 + c div 64) mod 4) * 64 + c mod 64 = c"
proof -
  have "c div 64 < 4" using assms by (simp add: less_mult_imp_div_less)
  then show ?thesis by (simp add: join_div join_mod)
qed

lemma b64_join2_last:
  fixes a b :: nat assumes "b < 256"
  shows "(((a mod 4) * 16 + b div 16) mod 16) * 16 + ((b mod 16) * 4) div 4 = b"
proof -
  have "b div 16 < 16" using assms by (simp_all add: less_mult_imp_div_less)
  then show ?thesis by (simp add: join_div join_mod)
qed

lemma b64_decode_sextets: "\<forall>b \<in> set bs. b < 256 \<Longrightarrow> b64_decode (b64_sextets bs) = bs"
proof (induction bs rule: b64_sextets.induct)
  case (1 a b c rest)
  then have "a < 256" "b < 256" "c < 256" by simp_all
  with 1 show ?case by (simp add: b64_join1 b64_join2 b64_join3)
next
  case (2 a b)
  then have "a < 256" "b < 256" by simp_all
  then show ?case using b64_join1[of b a] b64_join2_last[of b a] by simp
next
  case (3 a)
  then show ?case by simp
qed simp

lemma those_b64_value:
  "\<forall>v \<in> set vs. v < 64 \<Longrightarrow> those (map b64_value (map b64_char vs)) = Some vs"
  by (induction vs) (simp_all add: b64_value_char)

lemma strip_padding_plain:
  assumes "\<forall>c \<in> set xs. c \<noteq> CHR ''=''" and "p \<in> {[], ''='', ''==''}"
    and "length (xs @ p) mod 4 = 0"
  shows "strip_padding (xs @ p) = xs"
proof -
  have nl: "xs \<noteq> [] \<Longrightarrow> last xs \<noteq> CHR ''=''"
    using assms(1) last_in_set by blast
  consider "p = []" | "p = ''=''" | "p = ''==''" using assms(2) by auto
  then show ?thesis
  proof cases
    case 1
    then show ?thesis using nl by (auto simp add: strip_padding_def)
  next
    case 2
    then show ?thesis using nl assms(3) by (auto simp add: strip_padding_def Let_def)
  next
    case 3
    have "butlast (xs @ ''=='') = xs @ ''=''" by (simp add: butlast_append)
    then show ?thesis using 3 assms(3) by (simp add: strip_padding_def Let_def)
  qed
qed

lemma b64_padding_cases: "b64_padding bs \<in> {[], ''='', ''==''}"
  by (induction bs rule: b64_padding.induct) simp_all

lemma b64_encode_plain:
  assumes "\<forall>b \<in> set bs. b < 256" and "c \<in> set (map b64_char (b64_sextets bs))"
  shows "\<not> ascii_whitespace c \<and> c \<noteq> CHR ''=''"
  using assms b64_sextets_bound[OF assms(1)] b64_char_plain b64_char_not_pad by auto

lemma ascii_whitespace_pad: "\<not> ascii_whitespace CHR ''=''"
  by (simp add: ascii_whitespace_def)

lemma atob_b64_encode:
  assumes "\<forall>b \<in> set bs. b < 256"
  shows "atob (b64_encode bs) = Inr (map char_of bs)"
proof -
  let ?body = "map b64_char (b64_sextets bs)"
  have ws: "filter (\<lambda>c. \<not> ascii_whitespace c) (b64_encode bs) = b64_encode bs"
    using b64_encode_plain[OF assms] b64_padding_cases[of bs]
    by (auto simp add: b64_encode_split ascii_whitespace_pad filter_id_conv)
  have len: "length (?body @ b64_padding bs) mod 4 = 0"
    using b64_encode_length[of bs] by simp
  have strip: "strip_padding (b64_encode bs) = ?body"
    unfolding b64_encode_split
    by (rule strip_padding_plain) (use b64_encode_plain[OF assms] b64_padding_cases len in auto)
  have l1: "length ?body mod 4 \<noteq> 1"
    using b64_sextets_length by simp
  have th: "those (map b64_value ?body) = Some (b64_sextets bs)"
    by (rule those_b64_value) (rule b64_sextets_bound[OF assms])
  show ?thesis
    unfolding atob_def ws strip Let_def th
    using l1 by (simp add: b64_decode_sextets[OF assms])
qed

lemma atob_btoa: "atob (btoa s) = Inr s"
proof -
  have "\<forall>b \<in> set (map of_char s :: nat list). b < 256" by simp
  then have "atob (btoa s) = Inr (map char_of (map of_char s :: nat list))"
    unfolding btoa_def by (rule atob_b64_encode)
  then show ?thesis by (simp add: comp_def)
qed

lemma charCodeAt_fromCharCode: "charCodeAt (fromCharCode b) = b"
proof -
  have "unat b < 2 ^ LENGTH(8)" by (rule unsigned_less)
  then have "unat b < 256" by simp
  then show ?thesis by (simp add: charCodeAt_def fromCharCode_def)
qed


subsection \<open>The one-time pad\<close>

lemma xor_loop_length: "length (xor_loop n bytes keyBytes) = n"
  by (simp add: xor_loop_def)

lemma xor_loop_nth:
  "i < n \<Longrightarrow> xor_loop n bytes keyBytes ! i = js_xor (byte_at bytes i) (byte_at keyBytes i)"
  by (simp add: xor_loop_def)



lemma xor_loop_short_key:
  assumes "i < n"
  shows "xor_loop n bytes keyBytes ! i =
           (if i < length keyBytes then ToInt32 (byte_at bytes i) XOR keyBytes ! i
            else ToInt32 (byte_at bytes i))"
  using assms by (simp add: xor_loop_nth byte_at_def js_xor_def ToInt32_def)





lemma atob_example: "atob ''AQIDBAUG'' = Inr (map char_of [1, 2, 3, 4, 5, 6 :: nat])"
  by (simp add: atob_def strip_padding_def ascii_whitespace_def b64_value_def Let_def)

lemma key_example: "base64ToBytes ''AQIDBAUG'' = Inr [1, 2, 3, 4, 5, 6]"
  by (simp add: base64ToBytes_def atob_example charCodeAt_def)


text \<open>
  Claim C2. When the material \<open>K\<close> obtained for a plaintext has fewer bytes than the
  plaintext, \<open>encryptWithOTP\<close> throws: its result is an error and no payload. (An empty
  key string is refused one step earlier, with the other message.)
\<close>

theorem otp_short_key_rejected:
  assumes obtained: "generateOTPKeys km (length (TextEncoder_encode pf P) * 8) = Inr k"
    and material: "base64ToBytes (to_string (km_key.key k)) = Inr K"
    and too_short: "length K < length (TextEncoder_encode pf P)"
  shows "encryptWithOTP pf km now P =
           Inl (Error (if truthy (km_key.key k)
                       then ''Quantum key too short for OTP encryption''
                       else ''Failed to obtain quantum key for OTP encryption''))"
  using assms by (simp add: encryptWithOTP_def Let_def)

text \<open>
  Twelve bytes of plaintext against six bytes of key.
\<close>

theorem otp_short_key_rejected_witness:
  "encryptWithOTP ascii_platform km_example ''2025-01-01T00:00:00.000Z'' ''Hello, world'' =
     Inl (Error ''Quantum key too short for OTP encryption'')"
proof -
  let ?k = "\<lparr>key_ID = Some ''QK_1'', key = Some ''AQIDBAUG'', key_size = Some 96\<rparr>"
  have 1: "generateOTPKeys km_example
             (length (TextEncoder_encode ascii_platform ''Hello, world'') * 8) = Inr ?k"
    by (simp add: generateOTPKeys_def km_example_def ascii_platform_def)
  have 2: "base64ToBytes (to_string (km_key.key ?k)) = Inr [1, 2, 3, 4, 5, 6]"
    by (simp add: key_example)
  have 3: "length [1, 2, 3, 4, 5, 6 :: byte] < length (TextEncoder_encode ascii_platform ''Hello, world'')"
    by (simp add: ascii_platform_def)
  show ?thesis
    using otp_short_key_rejected[OF 1 2 3, of "''2025-01-01T00:00:00.000Z''"] by simp
qed

text \<open>
  Claim C10. \<open>decryptFromOTP\<close> has no length check. With key material \<open>K\<close> shorter than
  the ciphertext \<open>C\<close> it still returns: the bytes it hands to \<open>TextDecoder\<close> are as many as
  \<open>C\<close> has, the first \<open>length K\<close> of them are \<open>C[i] XOR K[i]\<close>, the others are \<open>C[i]\<close>
  unchanged, since \<open>keyBytes[i]\<close> is \<open>undefined\<close> there.
\<close>

theorem otp_decrypt_short_key:
  assumes recorded: "truthy (encrypted_data.quantumKeyId c)"
    and retrieved: "status (getKey km (to_string (encrypted_data.quantumKeyId c))) = ''success''"
      "keys (getKey km (to_string (encrypted_data.quantumKeyId c))) = k # ks"
    and material: "base64ToBytes (to_string (km_key.key k)) = Inr K"
    and ciphertext: "base64ToBytes (String (encrypted_data.encryptedData c)) = Inr C"
    and short: "length K < length C"
  shows "decryptFromOTP pf km c =
           Inr \<lparr>decrypted_data.data = TextDecoder_decode pf (xor_loop (length C) C K),
                verified = True, algorithm = ''OTP'', securityLevel = QUANTUM_SECURE\<rparr>
         \<and> length (xor_loop (length C) C K) = length C
         \<and> (\<forall>i. i < length K \<longrightarrow> xor_loop (length C) C K ! i = C ! i XOR K ! i)
         \<and> (\<forall>i. length K \<le> i \<and> i < length C \<longrightarrow> xor_loop (length C) C K ! i = C ! i)"
proof -
  have "decryptFromOTP pf km c =
           Inr \<lparr>decrypted_data.data = TextDecoder_decode pf (xor_loop (length C) C K),
                verified = True, algorithm = ''OTP'', securityLevel = QUANTUM_SECURE\<rparr>"
    using recorded retrieved material ciphertext by (simp add: decryptFromOTP_def Let_def)
  moreover have "\<forall>i. i < length K \<longrightarrow> xor_loop (length C) C K ! i = C ! i XOR K ! i"
    using short by (simp add: xor_loop_short_key byte_at_def ToInt32_def)
  moreover have "\<forall>i. length K \<le> i \<and> i < length C \<longrightarrow> xor_loop (length C) C K ! i = C ! i"
    by (simp add: xor_loop_short_key byte_at_def ToInt32_def)
  ultimately show ?thesis by (simp add: xor_loop_length)
qed


lemma ciphertext_example:
  "base64ToBytes ''QUJDREVGR0hJSg=='' = Inr [65, 66, 67, 68, 69, 70, 71, 72, 73, 74]"
proof -
  have "atob ''QUJDREVGR0hJSg=='' = Inr (map char_of [65, 66, 67, 68, 69, 70, 71, 72, 73, 74 :: nat])"
    by (simp add: atob_def strip_padding_def ascii_whitespace_def b64_value_def Let_def)
  then show ?thesis by (simp add: base64ToBytes_def charCodeAt_def)
qed

text \<open>
  Ten bytes of ciphertext, \<open>ABCDEFGHIJ\<close>, against six bytes of key: the last four bytes
  come out as they went in.
\<close>

theorem otp_decrypt_short_key_witness:
  "decryptFromOTP ascii_platform km_example
     \<lparr>encrypted_data.encryptedData = Str ''QUJDREVGR0hJSg=='', securityLevel = Some QUANTUM_SECURE,
      algorithm = Some ''OTP'', quantumKeyId = Some ''QK_1'', timestamp = None, keySize = None,
      metadata = None\<rparr> =
     Inr \<lparr>decrypted_data.data = ''@@@@@@GHIJ'', verified = True, algorithm = ''OTP'',
          securityLevel = QUANTUM_SECURE\<rparr>"
proof -
  let ?c = "\<lparr>encrypted_data.encryptedData = Str ''QUJDREVGR0hJSg=='',
             securityLevel = Some QUANTUM_SECURE, algorithm = Some ''OTP'',
             quantumKeyId = Some ''QK_1'', timestamp = None, keySize = None, metadata = None\<rparr>"
  let ?k = "\<lparr>key_ID = Some ''QK_1'', key = Some ''AQIDBAUG'', key_size = Some 256\<rparr>"
  let ?C = "[65, 66, 67, 68, 69, 70, 71, 72, 73, 74] :: byte list"
  let ?K = "[1, 2, 3, 4, 5, 6] :: byte list"
  have 1: "truthy (encrypted_data.quantumKeyId ?c)" by simp
  have 2: "status (getKey km_example (to_string (encrypted_data.quantumKeyId ?c))) = ''success''"
    by (simp add: km_example_def)
  have 3: "keys (getKey km_example (to_string (encrypted_data.quantumKeyId ?c))) = ?k # []"
    by (simp add: km_example_def)
  have 4: "base64ToBytes (to_string (km_key.key ?k)) = Inr ?K"
    by (simp add: key_example)
  have 5: "base64ToBytes (String (encrypted_data.encryptedData ?c)) = Inr ?C"
    by (simp add: ciphertext_example)
  have 6: "length ?K < length ?C" by simp
  have out: "xor_loop (length ?C) ?C ?K = [64, 64, 64, 64, 64, 64, 71, 72, 73, 74]"
    by (simp add: xor_loop_def upt_rec js_xor_def byte_at_def ToInt32_def)
  have decoded:
    "TextDecoder_decode ascii_platform [64, 64, 64, 64, 64, 64, 71, 72, 73, 74] = ''@@@@@@GHIJ''"
    by code_simp
  note run = otp_decrypt_short_key[OF 1 2 3 4 5 6, of ascii_platform, unfolded out decoded]
  from run show ?thesis by blast
qed

subsection \<open>The key request handlers\<close>

lemma filter_refs_length:
  "length (filter (\<lambda>r. P (xs ! r)) [0..<length xs]) = length (filter P xs)"
proof -
  have "filter P xs = filter P (map (\<lambda>r. xs ! r) [0..<length xs])"
    by (simp add: map_nth)
  also have "\<dots> = map (\<lambda>r. xs ! r) (filter (\<lambda>r. P (xs ! r)) [0..<length xs])"
    by (simp add: filter_map comp_def)
  finally show ?thesis by simp
qed

lemma filter_refs_values:
  "map (\<lambda>r. xs ! r) (filter (\<lambda>r. P (xs ! r)) [0..<length xs]) = filter P xs"
proof -
  have "filter P xs = filter P (map (\<lambda>r. xs ! r) [0..<length xs])"
    by (simp add: map_nth)
  then show ?thesis by (simp add: filter_map comp_def)
qed

lemma mark_length: "length (mark S db) = length db"
  by (simp add: mark_def)

lemma mark_empty: "mark {} db = db"
  by (simp add: mark_def map_nth)

lemma mark_nth:
  "r < length db \<Longrightarrow>
   mark S db ! r = (if r \<in> S then (fst (db ! r), (snd (db ! r))\<lparr>used := True\<rparr>) else db ! r)"
  by (simp add: mark_def)

lemma mark_insert:
  assumes "r < length db"
  shows "(mark S db)[r := (fst (mark S db ! r), (snd (mark S db ! r))\<lparr>used := True\<rparr>)] =
         mark (insert r S) db"
  using assms
  by (intro nth_equalityI) (auto simp add: mark_length mark_nth nth_list_update)

lemma delivered_mark:
  "r < length db \<Longrightarrow> delivered (snd (mark S db ! r)) = delivered (snd (db ! r))"
  by (simp add: mark_nth delivered_def)

lemma deliver_loop:
  assumes "n \<le> length availableKeys" and "\<forall>r \<in> set availableKeys. r < length db"
  shows "fold (deliver availableKeys) [0..<n] ([], db) =
           (map (\<lambda>r. delivered (snd (db ! r))) (take n availableKeys),
            mark (set (take n availableKeys)) db)"
  using assms(1)
proof (induction n)
  case 0
  then show ?case by (simp add: mark_empty)
next
  case (Suc n)
  then have n: "n < length availableKeys" by simp
  then have r: "availableKeys ! n < length db" using assms(2) by simp
  have "deliver availableKeys n
          (map (\<lambda>r. delivered (snd (db ! r))) (take n availableKeys),
           mark (set (take n availableKeys)) db) =
        (map (\<lambda>r. delivered (snd (db ! r))) (take (Suc n) availableKeys),
         mark (set (take (Suc n) availableKeys)) db)"
    using n r mark_insert[OF r, of "set (take n availableKeys)"]
      delivered_mark[OF r, of "set (take n availableKeys)"]
    by (simp add: deliver_def Let_def take_Suc_conv_app_nth delivered_def)
  with Suc show ?case by simp
qed


lemma handle_unfold:
  "handle db request generatedKeyId now =
     (if length (references db request) < requested request then
        (INSUFFICIENT_KEYS (insufficient_message request) (length (references db request))
           (requested request), db)
      else
        (let (keys, db') = fold (deliver (references db request)) [0..<requested request] ([], db)
         in (Keys keys (stream_id request generatedKeyId) now, db')))"
  by (cases request) (simp_all add: enc_keys_def otp_keys_def references_def Let_def)

lemma references_length: "length (references db request) = length (candidates db request)"
  unfolding references_def candidates_def Map_values_def
  using filter_refs_length[of "matches request" "map snd db"] by simp

lemma references_values:
  "map (\<lambda>r. snd (db ! r)) (references db request) = candidates db request"
proof -
  have "map (\<lambda>r. map snd db ! r) (filter (\<lambda>r. matches request (map snd db ! r)) [0..<length db])
        = filter (matches request) (map snd db)"
    using filter_refs_values[of "map snd db" "matches request"] by simp
  moreover have "map (\<lambda>r. map snd db ! r) (filter (\<lambda>r. matches request (map snd db ! r)) [0..<length db])
        = map (\<lambda>r. snd (db ! r)) (filter (\<lambda>r. matches request (map snd db ! r)) [0..<length db])"
    by (rule map_cong) auto
  ultimately show ?thesis by (simp add: references_def candidates_def Map_values_def)
qed

lemma references_bound: "\<forall>r \<in> set (references db request). r < length db"
  by (simp add: references_def)

lemma handle_insufficient:
  assumes "length (candidates db request) < requested request"
  shows "handle db request generatedKeyId now =
           (INSUFFICIENT_KEYS (insufficient_message request) (length (candidates db request))
              (requested request), db)"
  using assms by (simp add: handle_unfold references_length)

lemma handle_enough:
  assumes "requested request \<le> length (candidates db request)"
  shows "handle db request generatedKeyId now =
           (Keys (map delivered (take (requested request) (candidates db request)))
              (stream_id request generatedKeyId) now,
            mark (set (take (requested request) (references db request))) db)"
proof -
  have n: "requested request \<le> length (references db request)"
    using assms by (simp add: references_length)
  have "map (\<lambda>r. delivered (snd (db ! r))) (take (requested request) (references db request))
        = map delivered (take (requested request) (candidates db request))"
    by (simp add: references_values[symmetric] take_map comp_def)
  then show ?thesis
    using n by (simp add: handle_unfold deliver_loop[OF n references_bound])
qed


lemma matches_unused: "matches request k \<Longrightarrow> \<not> used k"
  by (cases request) simp_all

lemma mark_fst: "map fst (mark S db) = map fst db"
  by (intro nth_equalityI) (simp_all add: mark_length mark_nth)

lemma mark_keyId: "map (\<lambda>e. keyId (snd e)) (mark S db) = map (\<lambda>e. keyId (snd e)) db"
  by (intro nth_equalityI) (simp_all add: mark_length mark_nth)

lemma keyDatabase_ok_ids:
  assumes "keyDatabase_ok db"
  shows "map (\<lambda>e. keyId (snd e)) db = map fst db"
  using assms by (auto simp add: keyDatabase_ok_def list_all_iff)

lemma keyDatabase_ok_distinct:
  "keyDatabase_ok db \<Longrightarrow> distinct (map (\<lambda>e. keyId (snd e)) db)"
  by (simp add: keyDatabase_ok_ids) (simp add: keyDatabase_ok_def)

lemma mark_ok:
  assumes "keyDatabase_ok db"
  shows "keyDatabase_ok (mark S db)"
proof -
  have "list_all (\<lambda>(k, v). keyId v = k) (mark S db)"
    unfolding list_all_length
  proof (intro allI impI)
    fix r assume "r < length (mark S db)"
    then have r: "r < length db" by (simp add: mark_length)
    then have "(\<lambda>(k, v). keyId v = k) (db ! r)"
      using assms by (simp add: keyDatabase_ok_def list_all_length)
    then show "(\<lambda>(k, v). keyId v = k) (mark S db ! r)"
      using r by (simp add: mark_nth split_beta)
  qed
  then show ?thesis using assms by (simp add: keyDatabase_ok_def mark_fst)
qed

lemma used_ids_nth:
  "used_ids db = {keyId (snd (db ! r)) | r. r < length db \<and> used (snd (db ! r))}"
proof (intro set_eqI iffI)
  fix x assume "x \<in> used_ids db"
  then obtain k where k: "x = keyId k" "k \<in> set (map snd db)" "used k"
    by (auto simp add: used_ids_def Map_values_def)
  then obtain r where "r < length db" "k = snd (db ! r)"
    by (auto simp add: in_set_conv_nth)
  with k show "x \<in> {keyId (snd (db ! r)) | r. r < length db \<and> used (snd (db ! r))}"
    by blast
next
  fix x assume "x \<in> {keyId (snd (db ! r)) | r. r < length db \<and> used (snd (db ! r))}"
  then obtain r where r: "x = keyId (snd (db ! r))" "r < length db" "used (snd (db ! r))"
    by blast
  then have "snd (db ! r) \<in> set (Map_values db)"
    by (simp add: Map_values_def)
  with r show "x \<in> used_ids db"
    unfolding used_ids_def by blast
qed

lemma used_ids_mark:
  "used_ids (mark S db) = used_ids db \<union> {keyId (snd (db ! r)) | r. r < length db \<and> r \<in> S}"
proof (intro set_eqI iffI)
  fix x assume "x \<in> used_ids (mark S db)"
  then obtain r where r: "x = keyId (snd (mark S db ! r))" "r < length db"
      "used (snd (mark S db ! r))"
    unfolding used_ids_nth by (auto simp add: mark_length)
  show "x \<in> used_ids db \<union> {keyId (snd (db ! r)) | r. r < length db \<and> r \<in> S}"
  proof (cases "r \<in> S")
    case True
    with r show ?thesis by (auto simp add: mark_nth)
  next
    case False
    with r have "x = keyId (snd (db ! r))" "used (snd (db ! r))" by (simp_all add: mark_nth)
    with r(2) show ?thesis unfolding used_ids_nth by blast
  qed
next
  fix x assume "x \<in> used_ids db \<union> {keyId (snd (db ! r)) | r. r < length db \<and> r \<in> S}"
  then consider r where "x = keyId (snd (db ! r))" "r < length db" "used (snd (db ! r))"
    | r where "x = keyId (snd (db ! r))" "r < length db" "r \<in> S"
    unfolding used_ids_nth by blast
  then show "x \<in> used_ids (mark S db)"
  proof cases
    case 1
    then have "x = keyId (snd (mark S db ! r))" "used (snd (mark S db ! r))"
      by (simp_all add: mark_nth)
    with 1(2) show ?thesis unfolding used_ids_nth[of "mark S db"] mark_length by blast
  next
    case 2
    then have "x = keyId (snd (mark S db ! r))" "used (snd (mark S db ! r))"
      by (simp_all add: mark_nth)
    with 2(2) show ?thesis unfolding used_ids_nth[of "mark S db"] mark_length by blast
  qed
qed

lemma candidates_refs:
  "set (take n (candidates db request)) =
     (\<lambda>r. snd (db ! r)) ` set (take n (references db request))"
  by (simp add: references_values[symmetric] take_map)

lemma candidates_not_used:
  assumes ok: "keyDatabase_ok db" and k: "k \<in> set (candidates db request)"
  shows "keyId k \<notin> used_ids db"
proof
  assume "keyId k \<in> used_ids db"
  then obtain r' where r': "keyId k = keyId (snd (db ! r'))" "r' < length db"
      "used (snd (db ! r'))"
    unfolding used_ids_nth by blast
  from k have "k \<in> set (map snd db)" "\<not> used k"
    by (auto simp add: candidates_def Map_values_def dest: matches_unused)
  then obtain r where r: "r < length db" "k = snd (db ! r)"
    by (auto simp add: in_set_conv_nth)
  have "map (\<lambda>e. keyId (snd e)) db ! r = map (\<lambda>e. keyId (snd e)) db ! r'"
    using r r' by simp
  moreover have "r < length (map (\<lambda>e. keyId (snd e)) db)" "r' < length (map (\<lambda>e. keyId (snd e)) db)"
    using r(1) r'(2) by simp_all
  ultimately have "r = r'"
    using keyDatabase_ok_distinct[OF ok] nth_eq_iff_index_eq by blast
  with r r' \<open>\<not> used k\<close> show False by simp
qed

lemma handle_ok:
  assumes "keyDatabase_ok db"
  shows "keyDatabase_ok (snd (handle db request g now))"
proof (cases "length (candidates db request) < requested request")
  case True
  then show ?thesis using assms by (simp add: handle_insufficient)
next
  case False
  then show ?thesis using assms by (simp add: handle_enough mark_ok)
qed

lemma handle_used_mono: "used_ids db \<subseteq> used_ids (snd (handle db request g now))"
proof (cases "length (candidates db request) < requested request")
  case True
  then show ?thesis by (simp add: handle_insufficient)
next
  case False
  then show ?thesis by (simp add: handle_enough used_ids_mark)
qed

lemma handle_delivered_candidates:
  "delivered_ids (fst (handle db request g now)) \<subseteq> keyId ` set (candidates db request)"
proof (cases "length (candidates db request) < requested request")
  case True
  then show ?thesis by (simp add: handle_insufficient)
next
  case False
  then have "delivered_ids (fst (handle db request g now)) =
               keyId ` set (take (requested request) (candidates db request))"
    by (simp add: handle_enough delivered_def image_image)
  then show ?thesis using set_take_subset by fastforce
qed

lemma handle_delivered_used:
  "delivered_ids (fst (handle db request g now)) \<subseteq> used_ids (snd (handle db request g now))"
proof (cases "length (candidates db request) < requested request")
  case True
  then show ?thesis by (simp add: handle_insufficient)
next
  case False
  let ?S = "set (take (requested request) (references db request))"
  have "delivered_ids (fst (handle db request g now)) =
          keyId ` set (take (requested request) (candidates db request))"
    using False by (simp add: handle_enough delivered_def image_image)
  also have "\<dots> = {keyId (snd (db ! r)) | r. r \<in> ?S}"
    by (auto simp add: candidates_refs)
  also have "\<dots> \<subseteq> {keyId (snd (db ! r)) | r. r < length db \<and> r \<in> ?S}"
    using references_bound[of db request] by (auto dest: in_set_takeD)
  finally show ?thesis using False by (auto simp add: handle_enough used_ids_mark)
qed


lemma serve_length: "length (fst (serve db requests)) = length requests"
  by (induction requests arbitrary: db) (auto simp add: split_beta Let_def)

lemma serve_append:
  "serve db (xs @ ys) =
     (fst (serve db xs) @ fst (serve (snd (serve db xs)) ys), snd (serve (snd (serve db xs)) ys))"
  by (induction xs arbitrary: db) (auto simp add: split_beta Let_def)

lemma serve_ok: "keyDatabase_ok db \<Longrightarrow> keyDatabase_ok (snd (serve db requests))"
  by (induction requests arbitrary: db) (auto simp add: split_beta Let_def handle_ok)

lemma serve_used_mono: "used_ids db \<subseteq> used_ids (snd (serve db requests))"
proof (induction requests arbitrary: db)
  case Nil
  then show ?case by simp
next
  case (Cons x xs)
  obtain request g now where x: "x = (request, g, now)" by (cases x) auto
  have "used_ids db \<subseteq> used_ids (snd (handle db request g now))"
    by (rule handle_used_mono)
  also have "\<dots> \<subseteq> used_ids (snd (serve (snd (handle db request g now)) xs))"
    by (rule Cons.IH)
  finally show ?case by (simp add: x split_beta Let_def)
qed

lemma serve_step:
  assumes "i < length requests"
  shows "serve db (take (Suc i) requests) =
           (fst (serve db (take i requests)) @
              [fst (handle (snd (serve db (take i requests))) (fst (requests ! i))
                     (fst (snd (requests ! i))) (snd (snd (requests ! i))))],
            snd (handle (snd (serve db (take i requests))) (fst (requests ! i))
                  (fst (snd (requests ! i))) (snd (snd (requests ! i)))))"
proof -
  obtain request g now where x: "requests ! i = (request, g, now)"
    by (cases "requests ! i") auto
  have "take (Suc i) requests = take i requests @ [requests ! i]"
    using assms by (rule take_Suc_conv_app_nth)
  then show ?thesis by (simp add: serve_append x split_beta Let_def)
qed

lemma serve_nth:
  assumes "i < length requests"
  shows "fst (serve db requests) ! i =
           fst (handle (snd (serve db (take i requests))) (fst (requests ! i))
                  (fst (snd (requests ! i))) (snd (snd (requests ! i))))"
proof -
  have "requests = take (Suc i) requests @ drop (Suc i) requests" by simp
  then have "fst (serve db requests) =
               fst (serve db (take (Suc i) requests)) @
               fst (serve (snd (serve db (take (Suc i) requests))) (drop (Suc i) requests))"
    using serve_append[of db "take (Suc i) requests" "drop (Suc i) requests"] by simp
  moreover have "length (fst (serve db (take i requests))) = i"
    using assms by (simp add: serve_length)
  ultimately show ?thesis
    by (simp add: serve_step[OF assms] nth_append)
qed

lemma serve_used_later:
  assumes "i \<le> j"
  shows "used_ids (snd (serve db (take i requests))) \<subseteq> used_ids (snd (serve db (take j requests)))"
proof -
  have "take j requests = take i requests @ drop i (take j requests)"
    using assms by (metis append_take_drop_id min.absorb1 take_take)
  then have "snd (serve db (take j requests)) =
               snd (serve (snd (serve db (take i requests))) (drop i (take j requests)))"
    using serve_append[of db "take i requests" "drop i (take j requests)"] by simp
  then show ?thesis by (simp add: serve_used_mono)
qed

text \<open>
  Claim C6. Take any sequence of key requests on a database that satisfies the invariant
  of the \<open>Map\<close>, and two of them, the \<open>i\<close>-th before the \<open>j\<close>-th. No \<open>key_ID\<close> is delivered
  by both replies: the keys the \<open>i\<close>-th reply delivers are marked used in the database
  the \<open>j\<close>-th request finds, and none of them is among the candidates of the \<open>j\<close>-th
  request. (A reply that is not a success delivers no key.)
\<close>

theorem no_key_reuse:
  assumes ok: "keyDatabase_ok db" and ij: "i < j" and j: "j < length requests"
  shows "delivered_ids (fst (serve db requests) ! i) \<inter> delivered_ids (fst (serve db requests) ! j) = {}
       \<and> delivered_ids (fst (serve db requests) ! i) \<subseteq> used_ids (snd (serve db (take j requests)))
       \<and> keyId ` set (candidates (snd (serve db (take j requests))) (fst (requests ! j)))
           \<inter> delivered_ids (fst (serve db requests) ! i) = {}"
proof -
  let ?db = "\<lambda>n. snd (serve db (take n requests))"
  let ?reply = "\<lambda>n. fst (serve db requests) ! n"
  from ij j have i: "i < length requests" by simp
  have "delivered_ids (?reply i) \<subseteq> used_ids (?db (Suc i))"
    by (simp add: serve_nth[OF i] serve_step[OF i] handle_delivered_used)
  also have "\<dots> \<subseteq> used_ids (?db j)"
    using ij by (intro serve_used_later) simp
  finally have marked: "delivered_ids (?reply i) \<subseteq> used_ids (?db j)" .
  have "keyDatabase_ok (?db j)"
    using ok by (rule serve_ok)
  then have fresh: "keyId ` set (candidates (?db j) (fst (requests ! j))) \<inter> used_ids (?db j) = {}"
    using candidates_not_used by blast
  have "delivered_ids (?reply j) \<subseteq> keyId ` set (candidates (?db j) (fst (requests ! j)))"
    by (simp add: serve_nth[OF j] handle_delivered_candidates)
  with marked fresh show ?thesis by blast
qed

text \<open>
  Claim C3. A request for \<open>N\<close> keys that finds only \<open>M < N\<close> matching unused keys is
  answered by \<open>INSUFFICIENT_KEYS\<close> with \<open>available = M\<close> and \<open>requested = N\<close>, by the \<open>enc_keys\<close>
  handler and by the \<open>otp_keys\<close> handler alike, and the database is returned as it was:
  no key changes its state.
\<close>

theorem insufficient_keys_untouched:
  "(length (candidates db (EncKeys slave_sae_id query)) < requested (EncKeys slave_sae_id query)
      \<longrightarrow> enc_keys db slave_sae_id query generatedKeyId now =
           (INSUFFICIENT_KEYS ''Not enough keys available''
              (length (candidates db (EncKeys slave_sae_id query)))
              (requested (EncKeys slave_sae_id query)), db))
   \<and> (length (candidates db (OtpKeys slave_sae_id query)) < requested (OtpKeys slave_sae_id query)
      \<longrightarrow> otp_keys db slave_sae_id query generatedKeyId now =
           (INSUFFICIENT_KEYS ''Not enough OTP keys available''
              (length (candidates db (OtpKeys slave_sae_id query)))
              (requested (OtpKeys slave_sae_id query)), db))"
  using handle_insufficient[of db "EncKeys slave_sae_id query" generatedKeyId now]
    handle_insufficient[of db "OtpKeys slave_sae_id query" generatedKeyId now]
  by simp

lemma candidates_example:
  "candidates db_example (OtpKeys ''demo-server-001'' \<lparr>number = Some 5, size' = None, key_stream_id = None\<rparr>)
     = map snd [db_example ! 1, db_example ! 3, db_example ! 4]"
  by (simp add: candidates_def Map_values_def db_example_def)

text \<open>
  Five OTP keys asked of the example pool, which has three unused ones.
\<close>

theorem insufficient_keys_untouched_witness:
  "otp_keys db_example ''demo-server-001'' \<lparr>number = Some 5, size' = None, key_stream_id = None\<rparr>
     ''c0a8'' ''2025-01-02T00:00:00.000Z'' =
   (INSUFFICIENT_KEYS ''Not enough OTP keys available'' 3 5, db_example)"
  using insufficient_keys_untouched[of db_example "''demo-server-001''"
      "\<lparr>number = Some 5, size' = None, key_stream_id = None\<rparr>" "''c0a8''"
      "''2025-01-02T00:00:00.000Z''"]
  by (simp add: candidates_example)

lemma db_example_ok: "keyDatabase_ok db_example"
  by (simp add: keyDatabase_ok_def db_example_def)

text \<open>
  On the example pool: the first and the third of the three requests.
\<close>

theorem no_key_reuse_witness:
  "delivered_ids (fst (serve db_example requests_example) ! 0)
     \<inter> delivered_ids (fst (serve db_example requests_example) ! 2) = {}"
proof -
  have "(0::nat) < 2" by simp
  moreover have "2 < length requests_example"
    by (simp add: requests_example_def)
  ultimately show ?thesis
    using no_key_reuse[OF db_example_ok] by blast
qed

lemma serve_example:
  "map delivered_ids (fst (serve db_example requests_example))
   = [{''otp-1'', ''otp-3''}, {''enc-1''}, {''otp-4''}]"
  by code_simp


lemma Map_set_ok:
  assumes "keyDatabase_ok db" and "keyId v = k"
  shows "keyDatabase_ok (Map_set k v db)"
proof (cases "k \<in> set (map fst db)")
  case True
  let ?db' = "map (\<lambda>(k', v'). if k' = k then (k', v) else (k', v')) db"
  have eq: "Map_set k v db = ?db'"
    using True by (simp add: Map_set_def)
  have "map fst ?db' = map fst db"
    by (induction db) auto
  then have d: "distinct (map fst ?db')"
    using assms(1) by (simp only: keyDatabase_ok_def)
  have "list_all (\<lambda>(k, v). keyId v = k) ?db'"
    using assms by (fastforce simp add: keyDatabase_ok_def list_all_iff split: if_splits)
  with d show ?thesis
    unfolding keyDatabase_ok_def eq by blast
next
  case False
  then show ?thesis
    using assms by (simp add: Map_set_def keyDatabase_ok_def)
qed

lemma fold_Map_set_ok:
  assumes "keyDatabase_ok db" and "\<And>i. keyId (f i) = g i"
  shows "keyDatabase_ok (fold (\<lambda>i db. Map_set (g i) (f i) db) xs db)"
  using assms(1) by (induction xs arbitrary: db) (simp_all add: Map_set_ok assms(2))

lemma initializeKeys_ok: "keyDatabase_ok (initializeKeys generateKeyId generateQuantumKey now)"
  unfolding initializeKeys_def Let_def
  by (intro fold_Map_set_ok) (simp_all add: keyDatabase_ok_def)

subsection \<open>The encryption engine: encryption\<close>














lemma engine_example_initialize:
  "initialize sv_example engine_example = \<lparr>isInitialized = True, world = ()\<rparr>"
  by (simp add: initialize_def)


subsection \<open>The encryption engine: decryption\<close>













lemma decryptAttachment_success_binary:
  assumes "attachment.encrypted a = Some True"
    and "securityService_decryptData sv w (decryptData_argument (data a) md) = (Inr d, w')"
    and "truthy (originalContentType md)"
    and "\<not> startsWith (to_string (originalContentType md)) ''text/''"
    and "base64ToArrayBuffer (decrypted_data.data d) = Inr buffer"
  shows "decryptAttachment sv a (Some md) w =
           (a\<lparr>data := ArrayBuffer buffer,
              attachment.encrypted := Some False,
              contentType := originalContentType md,
              size' := (case originalSize md of
                          None \<Rightarrow> size' a
                        | Some n \<Rightarrow> if n \<noteq> 0 then Some n else size' a)\<rparr>, w')"
  using assms by (simp add: decryptAttachment_def Let_def)





text \<open>
  Claim C9. For a message whose \<open>encrypted\<close> field is absent or \<open>false\<close>, \<open>decryptEmail\<close>
  returns \<open>success: true\<close>, the message itself as \<open>decryptedEmail\<close> and
  \<open>wasEncrypted: false\<close>. Nothing is decrypted: the result is the same whatever
  \<open>securityService.decryptData\<close> would do, and the state changes by the initialization
  of a fresh engine only.
\<close>

theorem decryptEmail_unencrypted:
  assumes "encrypted encryptedEmail' = None \<or> encrypted encryptedEmail' = Some False"
  shows "decryptEmail sv st encryptedEmail' =
           (\<lparr>decrypt_result.success = True, decryptedEmail = Some encryptedEmail',
             wasEncrypted = Some False, securityLevel = None, error = None\<rparr>,
            if isInitialized st then st else initialize sv st)
       \<and> decryptEmail (sv\<lparr>securityService_decryptData := anyDecryptData\<rparr>) st encryptedEmail' =
           decryptEmail sv st encryptedEmail'"
  using assms by (auto simp add: decryptEmail_def initialize_def Let_def)

text \<open>
  On \<open>email_example\<close>, which has no \<open>encrypted\<close> field.
\<close>

theorem decryptEmail_unencrypted_witness:
  "decryptEmail sv_example engine_example email_example =
     (\<lparr>decrypt_result.success = True, decryptedEmail = Some email_example,
       wasEncrypted = Some False, securityLevel = None, error = None\<rparr>,
      \<lparr>isInitialized = True, world = ()\<rparr>)"
proof -
  have "encrypted email_example = None \<or> encrypted email_example = Some False"
    by (simp add: email_example_def)
  from decryptEmail_unencrypted[OF this, of sv_example engine_example, THEN conjunct1]
  show ?thesis
    by (simp add: engine_example_initialize)
qed

lemma base64ToArrayBuffer_arrayBufferToBase64:
  "base64ToArrayBuffer (arrayBufferToBase64 buffer) = Inr buffer"
  by (simp add: base64ToArrayBuffer_def arrayBufferToBase64_def atob_btoa comp_def
        charCodeAt_fromCharCode)

text \<open>
  Claim C8, as amended. \<open>base64ToArrayBuffer(arrayBufferToBase64(b))\<close> is \<open>b\<close>, byte for
  byte, for every buffer \<open>b\<close>. The decryption of a binary attachment checks neither a
  length nor a hash: when \<open>decryptData\<close> returns and the base64 decoding succeeds, the
  attachment is pushed as decrypted, with the size that the metadata records (or its
  own, when the metadata records none), whatever the decoded content is.
\<close>

theorem base64_roundtrip_unchecked:
  "base64ToArrayBuffer (arrayBufferToBase64 buffer) = Inr buffer
   \<and> (\<forall>sv a md w d w' content.
         attachment.encrypted a = Some True
         \<and> securityService_decryptData sv w (decryptData_argument (data a) md) = (Inr d, w')
         \<and> truthy (originalContentType md)
         \<and> \<not> startsWith (to_string (originalContentType md)) ''text/''
         \<and> base64ToArrayBuffer (decrypted_data.data d) = Inr content
         \<longrightarrow> decryptAttachment sv a (Some md) w =
             (a\<lparr>data := ArrayBuffer content,
                attachment.encrypted := Some False,
                contentType := originalContentType md,
                size' := (case originalSize md of
                            None \<Rightarrow> size' a
                          | Some n \<Rightarrow> if n \<noteq> 0 then Some n else size' a)\<rparr>, w'))"
proof (intro conjI allI impI)
  show "base64ToArrayBuffer (arrayBufferToBase64 buffer) = Inr buffer"
    by (rule base64ToArrayBuffer_arrayBufferToBase64)
next
  fix sv :: "'w services" and a :: attachment and md w d w' content
  assume "attachment.encrypted a = Some True
         \<and> securityService_decryptData sv w (decryptData_argument (data a) md) = (Inr d, w')
         \<and> truthy (originalContentType md)
         \<and> \<not> startsWith (to_string (originalContentType md)) ''text/''
         \<and> base64ToArrayBuffer (decrypted_data.data d) = Inr content"
  then show "decryptAttachment sv a (Some md) w =
             (a\<lparr>data := ArrayBuffer content,
                attachment.encrypted := Some False,
                contentType := originalContentType md,
                size' := (case originalSize md of
                            None \<Rightarrow> size' a
                          | Some n \<Rightarrow> if n \<noteq> 0 then Some n else size' a)\<rparr>, w')"
    by (intro decryptAttachment_success_binary) blast+
qed

lemma oversized_example_decrypted:
  "securityService_decryptData sv_example ()
     (decryptData_argument (data oversized_example)
        (metadata_example\<lparr>originalSize := Some 999,
                           originalContentType := Some ''application/pdf''\<rparr>)) =
   (Inr \<lparr>decrypted_data.data = ''AQID'', verified = True, algorithm = ''OTP'',
         securityLevel = QUANTUM_SECURE\<rparr>, ())"
  by code_simp

text \<open>
  On three bytes, and on \<open>oversized_example\<close>.
\<close>

theorem base64_roundtrip_unchecked_witness:
  "base64ToArrayBuffer (arrayBufferToBase64 [1, 2, 3]) = Inr [1, 2, 3]
   \<and> decryptAttachment sv_example oversized_example (attachment.metadata oversized_example) () =
       (oversized_example\<lparr>data := ArrayBuffer [1, 2, 3],
                           attachment.encrypted := Some False\<rparr>, ())"
proof -
  let ?md = "metadata_example\<lparr>originalSize := Some 999,
                               originalContentType := Some ''application/pdf''\<rparr>"
  let ?d = "\<lparr>decrypted_data.data = ''AQID'', verified = True, algorithm = ''OTP'',
             securityLevel = QUANTUM_SECURE\<rparr>"
  note th = base64_roundtrip_unchecked[of "[1, 2, 3]"]
  have 1: "attachment.encrypted oversized_example = Some True"
    by (simp add: oversized_example_def)
  have 2: "truthy (originalContentType ?md)" by simp
  have 3: "\<not> startsWith (to_string (originalContentType ?md)) ''text/''"
    by (simp add: startsWith_def)
  have 4: "base64ToArrayBuffer (decrypted_data.data ?d) = Inr [1, 2, 3]"
  proof -
    have "atob ''AQID'' = Inr (map char_of [1, 2, 3 :: nat])"
      by (simp add: atob_def strip_padding_def ascii_whitespace_def b64_value_def Let_def)
    then show ?thesis by (simp add: base64ToArrayBuffer_def charCodeAt_def)
  qed
  have 5: "attachment.metadata oversized_example = Some ?md"
    by (simp add: oversized_example_def)
  note inst = th[THEN conjunct2, rule_format,
      where sv = sv_example and a = oversized_example and md = ?md and w = "()" and d = ?d
        and w' = "()" and content = "[1, 2, 3]"]
  have "decryptAttachment sv_example oversized_example (Some ?md) () =
             (oversized_example\<lparr>data := ArrayBuffer [1, 2, 3],
                attachment.encrypted := Some False,
                contentType := originalContentType ?md,
                size' := (case originalSize ?md of
                            None \<Rightarrow> size' oversized_example
                          | Some n \<Rightarrow> if n \<noteq> 0 then Some n else size' oversized_example)\<rparr>, ())"
    by (rule inst) (intro conjI 1 2 3 4 oversized_example_decrypted)
  moreover have "oversized_example\<lparr>data := ArrayBuffer [1, 2, 3],
                attachment.encrypted := Some False,
                contentType := originalContentType ?md,
                size' := (case originalSize ?md of
                            None \<Rightarrow> size' oversized_example
                          | Some n \<Rightarrow> if n \<noteq> 0 then Some n else size' oversized_example)\<rparr>
        = oversized_example\<lparr>data := ArrayBuffer [1, 2, 3],
                           attachment.encrypted := Some False\<rparr>"
    by (simp add: oversized_example_def)
  ultimately have "decryptAttachment sv_example oversized_example
                     (attachment.metadata oversized_example) () =
       (oversized_example\<lparr>data := ArrayBuffer [1, 2, 3],
                           attachment.encrypted := Some False\<rparr>, ())"
    by (simp only: 5)
  with th[THEN conjunct1] show ?thesis by (intro conjI)
qed

text \<open>
  Claim C8 as stated fails: \<open>oversized_example\<close> decrypts to three bytes while its
  metadata records 999, and \<open>decryptAttachments\<close> reports it decrypted, with no
  \<open>decryptionError\<close> and with \<open>size\<close> 999.
\<close>

theorem length_check_counterexample:
  "decryptAttachments sv_example () [oversized_example] [attachment.metadata oversized_example] =
     ([oversized_example\<lparr>data := ArrayBuffer [1, 2, 3],
                          attachment.encrypted := Some False\<rparr>], ())
   \<and> decryptionError oversized_example = None
   \<and> size' oversized_example = Some 999
   \<and> length [1, 2, 3 :: byte] \<noteq> 999"
  by code_simp

end
